theory Spec2Isabelle
  imports Complex_Main
begin

section \<open>JavaScript numbers\<close>

text \<open>
  The worker computes with JavaScript numbers. A number is modelled as a real or one of
  the three non-finite values, so that \<open>isFinite\<close>, division by zero and the
  propagation of \<open>NaN\<close> are branches of the model. Arithmetic on finite values is exact
  (rounding is not modelled) and there is one zero (a quotient by zero takes the sign
  of its numerator only).
\<close>

datatype number = Fin real | PInf | NInf | NaN

fun isFinite :: "number \<Rightarrow> bool" where
  "isFinite (Fin r) = True"
| "isFinite PInf = False"
| "isFinite NInf = False"
| "isFinite NaN = False"

text \<open>\<open>ToBoolean\<close>, as used by \<open>||\<close>: zero and \<open>NaN\<close> are falsy.\<close>

fun truthy :: "number \<Rightarrow> bool" where
  "truthy (Fin r) = (r \<noteq> 0)"
| "truthy NaN = False"
| "truthy PInf = True"
| "truthy NInf = True"

instantiation number :: "{plus, minus, uminus, times, inverse}"
begin

fun uminus_number :: "number \<Rightarrow> number" where
  "uminus_number (Fin a) = Fin (- a)"
| "uminus_number PInf = NInf"
| "uminus_number NInf = PInf"
| "uminus_number NaN = NaN"

fun plus_number :: "number \<Rightarrow> number \<Rightarrow> number" where
  "plus_number (Fin a) (Fin b) = Fin (a + b)"
| "plus_number NaN v = NaN"
| "plus_number v NaN = NaN"
| "plus_number PInf NInf = NaN"
| "plus_number NInf PInf = NaN"
| "plus_number PInf v = PInf"
| "plus_number v PInf = PInf"
| "plus_number NInf v = NInf"
| "plus_number v NInf = NInf"

definition minus_number :: "number \<Rightarrow> number \<Rightarrow> number" where
  "minus_number u v = u + (- v)"

fun times_number :: "number \<Rightarrow> number \<Rightarrow> number" where
  "times_number (Fin a) (Fin b) = Fin (a * b)"
| "times_number NaN v = NaN"
| "times_number v NaN = NaN"
| "times_number (Fin a) PInf = (if a = 0 then NaN else if 0 < a then PInf else NInf)"
| "times_number (Fin a) NInf = (if a = 0 then NaN else if 0 < a then NInf else PInf)"
| "times_number PInf (Fin b) = (if b = 0 then NaN else if 0 < b then PInf else NInf)"
| "times_number NInf (Fin b) = (if b = 0 then NaN else if 0 < b then NInf else PInf)"
| "times_number PInf PInf = PInf"
| "times_number PInf NInf = NInf"
| "times_number NInf PInf = NInf"
| "times_number NInf NInf = PInf"

fun divide_number :: "number \<Rightarrow> number \<Rightarrow> number" where
  "divide_number (Fin a) (Fin b) =
     (if b \<noteq> 0 then Fin (a / b)
      else if a = 0 then NaN else if 0 < a then PInf else NInf)"
| "divide_number NaN v = NaN"
| "divide_number v NaN = NaN"
| "divide_number (Fin a) PInf = Fin 0"
| "divide_number (Fin a) NInf = Fin 0"
| "divide_number PInf (Fin b) = (if 0 \<le> b then PInf else NInf)"
| "divide_number NInf (Fin b) = (if 0 \<le> b then NInf else PInf)"
| "divide_number PInf PInf = NaN"
| "divide_number PInf NInf = NaN"
| "divide_number NInf PInf = NaN"
| "divide_number NInf NInf = NaN"

definition inverse_number :: "number \<Rightarrow> number" where
  "inverse_number v = divide (Fin 1) (v::number)"

instance ..

end

text \<open>The relational operator \<open><\<close>: false as soon as an operand is \<open>NaN\<close>.\<close>

fun js_lt :: "number \<Rightarrow> number \<Rightarrow> bool" where
  "js_lt (Fin a) (Fin b) = (a < b)"
| "js_lt NaN v = False"
| "js_lt v NaN = False"
| "js_lt PInf v = False"
| "js_lt v PInf = True"
| "js_lt NInf v = True"
| "js_lt v NInf = False"

text \<open>Rounding towards zero, and the remainder operator \<open>%\<close>, whose result has the
  sign of the dividend.\<close>

definition trunc :: "real \<Rightarrow> int" where
  "trunc r = (if 0 \<le> r then \<lfloor>r\<rfloor> else \<lceil>r\<rceil>)"

definition fmod :: "real \<Rightarrow> real \<Rightarrow> real" where
  "fmod a b = a - b * of_int (trunc (a / b))"

fun js_rem :: "number \<Rightarrow> number \<Rightarrow> number" where
  "js_rem (Fin a) (Fin b) = (if b = 0 then NaN else Fin (fmod a b))"
| "js_rem NaN v = NaN"
| "js_rem v NaN = NaN"
| "js_rem PInf v = NaN"
| "js_rem NInf v = NaN"
| "js_rem (Fin a) PInf = Fin a"
| "js_rem (Fin a) NInf = Fin a"

subsection \<open>The \<open>Math\<close> object\<close>

definition Math_PI :: number where
  "Math_PI = Fin pi"

fun Math_sqrt :: "number \<Rightarrow> number" where
  "Math_sqrt (Fin a) = (if a < 0 then NaN else Fin (sqrt a))"
| "Math_sqrt PInf = PInf"
| "Math_sqrt NInf = NaN"
| "Math_sqrt NaN = NaN"

fun Math_sin :: "number \<Rightarrow> number" where
  "Math_sin (Fin a) = Fin (sin a)"
| "Math_sin PInf = NaN"
| "Math_sin NInf = NaN"
| "Math_sin NaN = NaN"

fun Math_cos :: "number \<Rightarrow> number" where
  "Math_cos (Fin a) = Fin (cos a)"
| "Math_cos PInf = NaN"
| "Math_cos NInf = NaN"
| "Math_cos NaN = NaN"

text \<open>The angle of the point \<open>(x, y)\<close>, in \<open>(-\<pi>, \<pi>]\<close>, with \<open>atan2 0 0 = 0\<close>.\<close>

definition atan2 :: "real \<Rightarrow> real \<Rightarrow> real" where
  "atan2 y x =
     (if 0 < x then arctan (y / x)
      else if x < 0 then (if 0 \<le> y then arctan (y / x) + pi else arctan (y / x) - pi)
      else if 0 < y then pi / 2 else if y < 0 then - (pi / 2) else 0)"

fun Math_atan2 :: "number \<Rightarrow> number \<Rightarrow> number" where
  "Math_atan2 (Fin y) (Fin x) = Fin (atan2 y x)"
| "Math_atan2 NaN v = NaN"
| "Math_atan2 v NaN = NaN"
| "Math_atan2 (Fin y) PInf = Fin 0"
| "Math_atan2 (Fin y) NInf = Fin (if 0 \<le> y then pi else - pi)"
| "Math_atan2 PInf (Fin x) = Fin (pi / 2)"
| "Math_atan2 NInf (Fin x) = Fin (- (pi / 2))"
| "Math_atan2 PInf PInf = Fin (pi / 4)"
| "Math_atan2 PInf NInf = Fin (3 * pi / 4)"
| "Math_atan2 NInf PInf = Fin (- (pi / 4))"
| "Math_atan2 NInf NInf = Fin (- (3 * pi / 4))"

section \<open>Data of the worker\<close>

record TLE =
  line1 :: string
  line2 :: string

text \<open>\<open>SatelliteData\<close> and \<open>SatellitePosition\<close> share their first three fields.\<close>

record Identity =
  name :: string
  noradId :: string
  category :: string

record SatelliteData = Identity +
  tle :: TLE

record GeoPosition =
  lat :: number
  lon :: number
  alt :: number

record Vec3 =
  vx :: number
  vy :: number
  vz :: number

record SatellitePosition = Identity +
  position :: GeoPosition
  velocity :: Vec3
  visible :: bool

section \<open>\<open>ecefToGeodetic\<close>\<close>

record Geodetic =
  latitude :: number
  longitude :: number
  height :: number

definition WGS84_a :: number where
  "WGS84_a = Fin 6378.137"

definition WGS84_f :: number where
  "WGS84_f = Fin 1 / Fin 298.257223563"

definition WGS84_e2 :: number where
  "WGS84_e2 = WGS84_f * (Fin 2 - WGS84_f)"

text \<open>
  The body of the \<open>for\<close> loop: the next latitude from the current one. The locals
  \<open>lat\<close>, \<open>lon\<close> and \<open>alt\<close> (\<open>height\<close>) of the source are \<open>phi\<close>, \<open>lam\<close> and \<open>h\<close>
  here, and its constants \<open>a\<close>, \<open>f\<close> and \<open>e2\<close> are the three definitions above.
\<close>

definition refine :: "number \<Rightarrow> number \<Rightarrow> number \<Rightarrow> number" where
  "refine p z phi =
     (let sinLat = Math_sin phi;
          N = WGS84_a / Math_sqrt (Fin 1 - WGS84_e2 * sinLat * sinLat);
          h = p / Math_cos phi - N
      in Math_atan2 z (p * (Fin 1 - WGS84_e2 * (N / (N + h)))))"

text \<open>\<open>for (let i = 0; i < 5; i++)\<close>, started at \<open>i = 0\<close>.\<close>

function for_loop :: "nat \<Rightarrow> number \<Rightarrow> number \<Rightarrow> number \<Rightarrow> number" where
  "for_loop i p z phi = (if i < 5 then for_loop (i + 1) p z (refine p z phi) else phi)"
  by pat_completeness auto
termination
  by (relation "measure (\<lambda>(i, p, z, phi). 5 - i)") auto

definition ecefToGeodetic :: "number \<Rightarrow> number \<Rightarrow> number \<Rightarrow> Geodetic" where
  "ecefToGeodetic x y z =
     (let lam = Math_atan2 y x;
          p = Math_sqrt (x * x + y * y);
          phi0 = Math_atan2 z (p * (Fin 1 - WGS84_e2));
          phi = for_loop 0 p z phi0;
          sinLat = Math_sin phi;
          N = WGS84_a / Math_sqrt (Fin 1 - WGS84_e2 * sinLat * sinLat);
          h = p / Math_cos phi - N
      in \<lparr>latitude = phi, longitude = lam, height = h\<rparr>)"

section \<open>\<open>isSatelliteVisible\<close>\<close>

definition isSatelliteVisible :: "GeoPosition \<Rightarrow> number \<Rightarrow> number \<Rightarrow> number \<Rightarrow> bool" where
  "isSatelliteVisible pos observerLat observerLon observerAlt =
     (let earthRadius = Fin 6371;
          minAltitude = Fin 200
      in if js_lt (alt pos) minAltitude then False
         else
           let lat1 = (observerLat * Math_PI) / Fin 180;
               lon1 = (observerLon * Math_PI) / Fin 180;
               lat2 = (lat pos * Math_PI) / Fin 180;
               lon2 = (lon pos * Math_PI) / Fin 180;
               dlat = lat2 - lat1;
               dlon = lon2 - lon1;
               a = Math_sin (dlat / Fin 2) * Math_sin (dlat / Fin 2)
                   + Math_cos lat1 * Math_cos lat2 * Math_sin (dlon / Fin 2) * Math_sin (dlon / Fin 2);
               c = Fin 2 * Math_atan2 (Math_sqrt a) (Math_sqrt (Fin 1 - a));
               distance = earthRadius * c
           in js_lt distance (Fin 2000))"

section \<open>The library \<open>satellite.js\<close>\<close>

text \<open>
  The worker imports \<open>twoline2satrec\<close>, \<open>propagate\<close>, \<open>gstime\<close> and \<open>eciToEcf\<close>
  from a library that is not part of the repository. They are parameters of the model.
  Of a parsed record the worker reads the fields \<open>no\<close>, \<open>ecco\<close> and \<open>inclo\<close>; what
  else the library keeps in it is the component \<open>elements\<close>. A field that is
  \<open>undefined\<close> fails \<open>isFinite\<close> as \<open>NaN\<close> does and is modelled by it.
\<close>

record 'e SatRec =
  no :: number
  ecco :: number
  inclo :: number
  elements :: 'e

text \<open>
  What \<open>propagate\<close> can do: throw, return \<open>null\<close>, or return an object whose
  \<open>position\<close> and \<open>velocity\<close> are vectors or are missing (\<open>undefined\<close> or \<open>false\<close>).
\<close>

datatype PositionAndVelocity =
  PropThrows
| PropNull
| PV (pv_position: "Vec3 option") (pv_velocity: "Vec3 option")

text \<open>
  A \<open>Date\<close> is its time value in milliseconds, \<open>NaN\<close> for an invalid date.
  \<open>new Date(t)\<close> clips: a non-finite \<open>t\<close> or one beyond \<open>8.64e15\<close> in absolute
  value is invalid, any other is rounded towards zero.
\<close>

type_synonym Date = number

fun new_Date :: "number \<Rightarrow> Date" where
  "new_Date (Fin t) = (if 8640000000000000 < \<bar>t\<bar> then NaN else Fin (of_int (trunc t)))"
| "new_Date PInf = NaN"
| "new_Date NInf = NaN"
| "new_Date NaN = NaN"

record 'e satellite_js =
  twoline2satrec :: "string \<Rightarrow> string \<Rightarrow> 'e SatRec option"
  propagate :: "'e SatRec \<Rightarrow> Date \<Rightarrow> PositionAndVelocity"
  gstime :: "Date \<Rightarrow> number"
  eciToEcf :: "Vec3 \<Rightarrow> number \<Rightarrow> Vec3"

text \<open>\<open>twoline2satrec\<close> returns \<open>None\<close> when the library throws.\<close>

section \<open>\<open>parseTLE\<close> and the record cache\<close>

text \<open>
  The state of the worker is the module-level \<open>satelliteCache\<close>. The model keeps beside
  it the list of the calls made to \<open>twoline2satrec\<close>, so that a theorem can say that
  a call of \<open>parseTLE\<close> did not parse.
\<close>

record 'e worker =
  satelliteCache :: "string \<rightharpoonup> 'e SatRec"
  parseLog :: "(string \<times> string) list"

definition cacheKey :: "SatelliteData \<Rightarrow> string" where
  "cacheKey satellite =
     noradId satellite @ ''-'' @ line1 (tle satellite) @ ''-'' @ line2 (tle satellite)"

definition parseTLE ::
  "'e satellite_js \<Rightarrow> SatelliteData \<Rightarrow> 'e worker \<Rightarrow> 'e SatRec option \<times> 'e worker" where
  "parseTLE L satellite w =
     (case satelliteCache w (cacheKey satellite) of
        Some cached \<Rightarrow> (Some cached, w)
      | None \<Rightarrow>
          (let w1 = w\<lparr>parseLog := parseLog w @ [(line1 (tle satellite), line2 (tle satellite))]\<rparr>
           in case twoline2satrec L (line1 (tle satellite)) (line2 (tle satellite)) of
                Some satrec \<Rightarrow>
                  (Some satrec,
                   w1\<lparr>satelliteCache := (satelliteCache w1)(cacheKey satellite \<mapsto> satrec)\<rparr>)
              | None \<Rightarrow> (None, w1)))"

section \<open>\<open>propagateSatellites\<close>\<close>

text \<open>
  The local variables of the function that the loop updates, and the worker state.
  \<open>debugLogged\<close> only gates console output, which is not modelled apart from the
  last line, the one that prints the counters.
\<close>

record 'e locals =
  positions :: "SatellitePosition list"
  parsedCount :: nat
  propagatedCount :: nat
  geodeticCount :: nat
  debugLogged :: nat
  worker :: "'e worker"

text \<open>
  One iteration of \<open>for (const satellite of satellites)\<close>. Each \<open>continue\<close>, and the
  \<open>catch\<close> around the body, ends the iteration with the locals as they are then.
\<close>

definition normalizeLon :: "number \<Rightarrow> number" where
  "normalizeLon lonDeg = js_rem (js_rem (lonDeg + Fin 180) (Fin 360) + Fin 360) (Fin 360) - Fin 180"

definition emit :: "SatelliteData \<Rightarrow> Geodetic \<Rightarrow> Vec3 \<Rightarrow> SatellitePosition" where
  "emit satellite geodetic velocityEcf =
     (let latDeg = (latitude geodetic * Fin 180) / Math_PI;
          lonDeg = (longitude geodetic * Fin 180) / Math_PI;
          lonDeg = normalizeLon lonDeg
      in \<lparr>name = name satellite, noradId = noradId satellite, category = category satellite,
          position = \<lparr>lat = latDeg, lon = lonDeg, alt = height geodetic\<rparr>,
          velocity = \<lparr>vx = vx velocityEcf, vy = vy velocityEcf, vz = vz velocityEcf\<rparr>,
          visible = True\<rparr>)"

definition body :: "'e satellite_js \<Rightarrow> Date \<Rightarrow> 'e locals \<Rightarrow> SatelliteData \<Rightarrow> 'e locals" where
  "body L date v satellite =
     (case parseTLE L satellite (worker v) of
        (None, w) \<Rightarrow> v\<lparr>worker := w\<rparr>
      | (Some satrec, w) \<Rightarrow>
          (let v1 = v\<lparr>worker := w, parsedCount := parsedCount v + 1\<rparr>
           in if \<not> isFinite (no satrec) \<or> \<not> isFinite (ecco satrec) \<or> \<not> isFinite (inclo satrec)
              then v1
              else
                (case propagate L satrec date of
                   PropThrows \<Rightarrow> v1
                 | PropNull \<Rightarrow> v1
                 | PV None vel \<Rightarrow> v1
                 | PV (Some pos) vel \<Rightarrow>
                     if \<not> isFinite (vx pos) \<or> \<not> isFinite (vy pos) \<or> \<not> isFinite (vz pos)
                     then v1
                     else
                       (case vel of
                          None \<Rightarrow> v1
                        | Some vel \<Rightarrow>
                            (let v2 = v1\<lparr>propagatedCount := propagatedCount v1 + 1\<rparr>;
                                 gmst = gstime L date;
                                 posEcf = eciToEcf L pos gmst;
                                 geodetic = ecefToGeodetic (vx posEcf) (vy posEcf) (vz posEcf);
                                 velocityEcf = eciToEcf L vel gmst
                             in if \<not> isFinite (latitude geodetic) \<or> \<not> isFinite (longitude geodetic)
                                   \<or> \<not> isFinite (height geodetic)
                                then v2\<lparr>debugLogged := debugLogged v2 + 1\<rparr>
                                else
                                  v2\<lparr>geodeticCount := geodeticCount v2 + 1,
                                     positions := positions v2 @ [emit satellite geodetic velocityEcf]\<rparr>)))))"

fun for_of :: "'e satellite_js \<Rightarrow> Date \<Rightarrow> 'e locals \<Rightarrow> SatelliteData list \<Rightarrow> 'e locals" where
  "for_of L date v [] = v"
| "for_of L date v (satellite # rest) = for_of L date (body L date v satellite) rest"

text \<open>
  The function returns \<open>positions\<close>; it prints the line
  \<open>propagate debug: parsed=.., propagated=.., geodetic=.., positions=..\<close> and leaves the
  cache updated. The three are the components of the result.
\<close>

record DebugLine =
  parsed :: nat
  propagated :: nat
  geodetic :: nat
  positions_length :: nat

record 'e batch =
  returned :: "SatellitePosition list"
  debug :: DebugLine
  after :: "'e worker"

definition propagateSatellites ::
  "'e satellite_js \<Rightarrow> SatelliteData list \<Rightarrow> number \<Rightarrow> number \<Rightarrow> number \<Rightarrow> number
     \<Rightarrow> 'e worker \<Rightarrow> 'e batch" where
  "propagateSatellites L sats ts obsLat obsLon obsAlt w =
     (let date = new_Date ts;
          v = for_of L date
                \<lparr>positions = [], parsedCount = 0, propagatedCount = 0, geodeticCount = 0,
                 debugLogged = 0, worker = w\<rparr> sats
      in \<lparr>returned = positions v,
          debug = \<lparr>parsed = parsedCount v, propagated = propagatedCount v,
                   geodetic = geodeticCount v, positions_length = length (positions v)\<rparr>,
          after = worker v\<rparr>)"

section \<open>\<open>self.onmessage\<close>\<close>

datatype message_type = INIT | PROPAGATE | Other string

record MessageData =
  satellites :: "SatelliteData list option"
  timestamp :: "number option"
  observerLat :: "number option"
  observerLon :: "number option"
  observerAlt :: "number option"

record WorkerMessage =
  msg_type :: message_type
  msg_data :: "MessageData option"

datatype WorkerResponse =
  READY
| POSITIONS "SatellitePosition list" number nat
| ERROR string

text \<open>\<open>field || d\<close> on an optional number: \<open>d\<close> when the field is missing or falsy.\<close>

definition or_else :: "number option \<Rightarrow> number \<Rightarrow> number" where
  "or_else field d = (case field of None \<Rightarrow> d | Some n \<Rightarrow> if truthy n then n else d)"

text \<open>
  The handler posts one message for each message it receives. \<open>now\<close> is what
  \<open>Date.now()\<close> returns during the call.
\<close>

definition onmessage ::
  "'e satellite_js \<Rightarrow> number \<Rightarrow> WorkerMessage \<Rightarrow> 'e worker \<Rightarrow> WorkerResponse \<times> 'e worker" where
  "onmessage L now m w =
     (case msg_type m of
        INIT \<Rightarrow> (READY, w)
      | PROPAGATE \<Rightarrow>
          (case msg_data m of
             None \<Rightarrow> (ERROR ''No satellite data provided'', w)
           | Some d \<Rightarrow>
               (case satellites d of
                  None \<Rightarrow> (ERROR ''No satellite data provided'', w)
                | Some sats \<Rightarrow>
                    (let ts = or_else (timestamp d) now;
                         obsLat = or_else (observerLat d) (Fin 0);
                         obsLon = or_else (observerLon d) (Fin 0);
                         obsAlt = or_else (observerAlt d) (Fin 0);
                         b = propagateSatellites L sats ts obsLat obsLon obsAlt w
                     in (POSITIONS (returned b) ts (length (returned b)), after b))))
      | Other t \<Rightarrow> (ERROR (''Unknown message type: '' @ t), w))"

definition started :: "'e worker" where
  "started = \<lparr>satelliteCache = Map.empty, parseLog = []\<rparr>"

section \<open>Definitions that follow the specification\<close>


text \<open>
  The haversine great-circle distance in kilometres between two points given in
  degrees, on a sphere of radius 6371 km.
\<close>

definition haversine_km :: "real \<Rightarrow> real \<Rightarrow> real \<Rightarrow> real \<Rightarrow> real" where
  "haversine_km latA lonA latB lonB =
     (let phiA = latA * pi / 180;
          phiB = latB * pi / 180;
          dphi = phiB - phiA;
          dlam = lonB * pi / 180 - lonA * pi / 180;
          hav = (sin (dphi / 2))\<^sup>2 + cos phiA * cos phiB * (sin (dlam / 2))\<^sup>2
      in 2 * 6371 * arcsin (sqrt hav))"

text \<open>
  What happens to a catalog entry in a batch, by the stage at which the loop leaves it:
  a parse failure when \<open>parseTLE\<close> returns \<open>null\<close>; a propagation failure when the
  entry is dropped after \<open>parsedCount\<close> and before \<open>propagatedCount\<close> is incremented
  (the record fails the sanity check, \<open>propagate\<close> throws or returns no usable
  position and velocity); a transform failure when the geodetic result is not finite.
  The fate of an entry depends on the cache as it is when the entry is reached.
\<close>

datatype fate = ParseFailure | PropagationFailure | TransformFailure | Survives

definition fate_of :: "'e satellite_js \<Rightarrow> Date \<Rightarrow> 'e worker \<Rightarrow> SatelliteData \<Rightarrow> fate" where
  "fate_of L date w satellite =
     (case fst (parseTLE L satellite w) of
        None \<Rightarrow> ParseFailure
      | Some satrec \<Rightarrow>
          if \<not> (isFinite (no satrec) \<and> isFinite (ecco satrec) \<and> isFinite (inclo satrec))
          then PropagationFailure
          else
            (case propagate L satrec date of
               PV (Some pos) (Some vel) \<Rightarrow>
                 if \<not> (isFinite (vx pos) \<and> isFinite (vy pos) \<and> isFinite (vz pos))
                 then PropagationFailure
                 else
                   (let posEcf = eciToEcf L pos (gstime L date);
                        geodetic = ecefToGeodetic (vx posEcf) (vy posEcf) (vz posEcf)
                    in if isFinite (latitude geodetic) \<and> isFinite (longitude geodetic)
                          \<and> isFinite (height geodetic)
                       then Survives else TransformFailure)
             | _ \<Rightarrow> PropagationFailure))"

fun fates :: "'e satellite_js \<Rightarrow> Date \<Rightarrow> 'e worker \<Rightarrow> SatelliteData list \<Rightarrow> fate list" where
  "fates L date w [] = []"
| "fates L date w (satellite # rest) =
     fate_of L date w satellite # fates L date (snd (parseTLE L satellite w)) rest"

section \<open>A stand-in library and example catalogs\<close>

text \<open>
  A small library to run the worker on concrete catalogs. Its parser accepts a pair of
  lines that start with their line numbers and throws on any other; its propagator
  puts the object on the equator at 7000 km from the Earth's centre, unless the second
  line names another case. Sidereal time is zero, so the rotation into the Earth-fixed
  frame is the identity.
\<close>

definition demo_twoline2satrec :: "string \<Rightarrow> string \<Rightarrow> string SatRec option" where
  "demo_twoline2satrec l1 l2 =
     (if take 2 l1 = ''1 '' \<and> take 2 l2 = ''2 ''
      then Some \<lparr>no = Fin 15, ecco = Fin 0, inclo = Fin 0, elements = drop 2 l2\<rparr>
      else None)"

definition demo_propagate :: "string SatRec \<Rightarrow> Date \<Rightarrow> PositionAndVelocity" where
  "demo_propagate satrec date =
     (if elements satrec = ''decayed'' then PV None None
      else if elements satrec = ''pole''
        then PV (Some \<lparr>vx = Fin 0, vy = Fin 0, vz = Fin 7000\<rparr>)
                (Some \<lparr>vx = Fin 7, vy = Fin 0, vz = Fin 0\<rparr>)
      else if elements satrec = ''west''
        then PV (Some \<lparr>vx = Fin (- 7000), vy = Fin 0, vz = Fin 0\<rparr>)
                (Some \<lparr>vx = Fin 0, vy = Fin 7, vz = Fin 0\<rparr>)
      else if elements satrec = ''low''
        then PV (Some \<lparr>vx = Fin 6400, vy = Fin 0, vz = Fin 0\<rparr>)
                (Some \<lparr>vx = Fin 0, vy = Fin 7, vz = Fin 0\<rparr>)
      else if elements satrec = ''nanvel''
        then PV (Some \<lparr>vx = Fin 7000, vy = Fin 0, vz = Fin 0\<rparr>)
                (Some \<lparr>vx = NaN, vy = Fin 7, vz = Fin 0\<rparr>)
      else PV (Some \<lparr>vx = Fin 7000, vy = Fin 0, vz = Fin 0\<rparr>)
              (Some \<lparr>vx = Fin 0, vy = Fin 7, vz = Fin 0\<rparr>))"

definition demo_js :: "string satellite_js" where
  "demo_js = \<lparr>twoline2satrec = demo_twoline2satrec, propagate = demo_propagate,
              gstime = (\<lambda>date. Fin 0), eciToEcf = (\<lambda>v gmst. v)\<rparr>"

definition entry :: "string \<Rightarrow> string \<Rightarrow> string \<Rightarrow> SatelliteData" where
  "entry ident l1 l2 =
     \<lparr>name = ident, noradId = ident, category = ''demo'', tle = \<lparr>line1 = l1, line2 = l2\<rparr>\<rparr>"

definition leo :: SatelliteData where
  "leo = entry ''25544'' ''1 25544U'' ''2 leo''"

definition leo_updated :: SatelliteData where
  "leo_updated = entry ''25544'' ''1 25544U'' ''2 west''"

definition west :: SatelliteData where
  "west = entry ''20580'' ''1 20580U'' ''2 west''"

definition low :: SatelliteData where
  "low = entry ''55555'' ''1 55555U'' ''2 low''"

definition pole :: SatelliteData where
  "pole = entry ''11111'' ''1 11111U'' ''2 pole''"

definition decayed :: SatelliteData where
  "decayed = entry ''22222'' ''1 22222U'' ''2 decayed''"

definition nanvel :: SatelliteData where
  "nanvel = entry ''33333'' ''1 33333U'' ''2 nanvel''"

definition garbled :: SatelliteData where
  "garbled = entry ''44444'' ''garbled'' ''2 leo''"



definition noon :: number where
  "noon = Fin 1700000000000"

definition no_data :: MessageData where
  "no_data = \<lparr>satellites = None, timestamp = None, observerLat = None, observerLon = None,
              observerAlt = None\<rparr>"

text \<open>
  A catalog is unambiguous when entries with the same cache key have the same lines.
  Two worker states agree on a set of entries when the second cache extends the first
  and holds, for a key of one of the entries that the first lacks, what the parser
  makes of that entry.
\<close>

definition unambiguous :: "SatelliteData list \<Rightarrow> bool" where
  "unambiguous sats = (\<forall>a \<in> set sats. \<forall>b \<in> set sats. cacheKey a = cacheKey b \<longrightarrow> tle a = tle b)"

definition cache_agrees ::
  "'e satellite_js \<Rightarrow> SatelliteData set \<Rightarrow> 'e worker \<Rightarrow> 'e worker \<Rightarrow> bool" where
  "cache_agrees L S w w' =
     ((\<forall>k r. satelliteCache w k = Some r \<longrightarrow> satelliteCache w' k = Some r) \<and>
      (\<forall>e \<in> S. \<forall>r. satelliteCache w' (cacheKey e) = Some r \<longrightarrow>
          satelliteCache w (cacheKey e) = Some r \<or>
          (satelliteCache w (cacheKey e) = None \<and>
           twoline2satrec L (line1 (tle e)) (line2 (tle e)) = Some r)))"

text \<open>The record the stand-in parser makes of a second line \<open>2 els\<close>.\<close>

definition demo_record :: "string \<Rightarrow> string SatRec" where
  "demo_record els = \<lparr>no = Fin 15, ecco = Fin 0, inclo = Fin 0, elements = els\<rparr>"

definition propagate_msg :: "MessageData \<Rightarrow> WorkerMessage" where
  "propagate_msg d = \<lparr>msg_type = PROPAGATE, msg_data = Some d\<rparr>"

section \<open>Arithmetic of numbers\<close>

lemma Fin_minus [simp]: "Fin a - Fin b = Fin (a - b)"
  by (simp add: minus_number_def)

lemma NaN_arith [simp]:
  "u + NaN = NaN" "NaN + u = NaN" "u - NaN = NaN" "NaN - u = NaN"
  "u * NaN = NaN" "NaN * u = NaN" "u / NaN = NaN" "NaN / u = NaN"
  by (cases u; simp add: minus_number_def)+

lemma fmod_nonneg:
  assumes "0 < b" "0 \<le> a"
  shows "0 \<le> fmod a b \<and> fmod a b < b"
proof -
  from assms have q: "0 \<le> a / b" by simp
  have f1: "of_int \<lfloor>a / b\<rfloor> \<le> a / b" by simp
  have f2: "a / b < of_int \<lfloor>a / b\<rfloor> + 1" by linarith
  have ab: "a / b * b = a" using assms(1) by simp
  have "of_int \<lfloor>a / b\<rfloor> * b \<le> a / b * b"
    using f1 assms(1) by (intro mult_right_mono) simp_all
  moreover have "a / b * b < (of_int \<lfloor>a / b\<rfloor> + 1) * b"
    using f2 assms(1) by (intro mult_strict_right_mono) simp_all
  ultimately show ?thesis
    using q unfolding ab by (simp add: fmod_def trunc_def algebra_simps)
qed

lemma fmod_bounds:
  assumes "0 < b"
  shows "- b < fmod a b \<and> fmod a b < b"
proof (cases "0 \<le> a")
  case True
  with fmod_nonneg [OF assms] assms show ?thesis by (smt (verit))
next
  case False
  with assms have q: "a / b < 0" by (simp add: divide_neg_pos)
  have c1: "a / b \<le> of_int \<lceil>a / b\<rceil>" by simp
  have c2: "of_int \<lceil>a / b\<rceil> - 1 < a / b" by linarith
  have ab: "a / b * b = a" using assms by simp
  have "a / b * b \<le> of_int \<lceil>a / b\<rceil> * b"
    using c1 assms by (intro mult_right_mono) simp_all
  moreover have "(of_int \<lceil>a / b\<rceil> - 1) * b < a / b * b"
    using c2 assms by (intro mult_strict_right_mono) simp_all
  ultimately show ?thesis
    using q unfolding ab by (simp add: fmod_def trunc_def algebra_simps)
qed

text \<open>The double remainder brings every finite longitude into the half-open interval.\<close>

lemma normalizeLon_range:
  "\<exists>r. normalizeLon (Fin v) = Fin r \<and> - 180 \<le> r \<and> r < 180"
proof -
  define r1 where "r1 = fmod (v + 180) 360"
  define r2 where "r2 = fmod (r1 + 360) 360"
  have "- 360 < r1"
    unfolding r1_def using fmod_bounds [of 360 "v + 180"] by simp
  then have "0 \<le> r1 + 360" by simp
  then have b: "0 \<le> r2 \<and> r2 < 360"
    unfolding r2_def using fmod_nonneg [of 360 "r1 + 360"] by simp
  have "normalizeLon (Fin v) = Fin (r2 - 180)"
    by (simp add: normalizeLon_def r1_def r2_def)
  with b show ?thesis by simp
qed

lemma normalize_0: "normalizeLon (Fin 0) = Fin 0"
  by (simp add: normalizeLon_def fmod_def trunc_def)

lemma normalize_180: "normalizeLon (Fin 180) = Fin (- 180)"
  by (simp add: normalizeLon_def fmod_def trunc_def)

section \<open>The ellipsoidal inversion\<close>


lemma e2_value: "WGS84_e2 = Fin (1 / 298.257223563 * (2 - 1 / 298.257223563))"
  by (simp add: WGS84_e2_def WGS84_f_def)

lemma refine_equator:
  assumes "43 \<le> q"
  shows "refine (Fin q) (Fin 0) (Fin 0) = Fin 0"
proof -
  have q0: "q \<noteq> 0" using assms by simp
  have "1 / 298.257223563 * (2 - 1 / 298.257223563) * (6378.137::real) < 43" by simp
  with assms have pos: "0 < q * (1 - 1 / 298.257223563 * (2 - 1 / 298.257223563) * (6378.137 / q))"
    by (simp add: field_simps)
  show ?thesis
    using q0 pos by (simp add: refine_def Let_def e2_value WGS84_a_def atan2_def)
qed

lemma for_loop_equator:
  assumes "43 \<le> q"
  shows "for_loop 0 (Fin q) (Fin 0) (Fin 0) = Fin 0"
  by (simp add: refine_equator [OF assms])

text \<open>A point of the equatorial plane on the first axis, away from the centre.\<close>

lemma ecef_equator:
  assumes "43 \<le> \<bar>x\<bar>"
  shows "ecefToGeodetic (Fin x) (Fin 0) (Fin 0)
           = \<lparr>latitude = Fin 0, longitude = Fin (if 0 < x then 0 else pi),
              height = Fin (\<bar>x\<bar> - 6378.137)\<rparr>"
proof -
  have p: "Math_sqrt (Fin x * Fin x + Fin 0 * Fin 0) = Fin \<bar>x\<bar>" by simp
  have "0 < \<bar>x\<bar> * (1 - 1 / 298.257223563 * (2 - 1 / 298.257223563))"
    using assms by simp
  then have phi0: "Math_atan2 (Fin 0) (Fin \<bar>x\<bar> * (Fin 1 - WGS84_e2)) = Fin 0"
    by (simp add: e2_value atan2_def)
  have lam: "Math_atan2 (Fin 0) (Fin x) = Fin (if 0 < x then 0 else pi)"
    using assms by (auto simp: atan2_def)
  show ?thesis
    unfolding ecefToGeodetic_def Let_def p phi0 for_loop_equator [OF assms] lam
    by (simp add: e2_value WGS84_a_def)
qed

lemma refine_NaN: "refine (Fin p) (Fin z) NaN = NaN"
  by (simp add: refine_def Let_def e2_value WGS84_a_def)

lemma refine_pole: "refine (Fin 0) (Fin z) (Fin (pi / 2)) = NaN"
proof -
  have "sqrt (1 - 1 / 298.257223563 * (2 - 1 / 298.257223563)) \<noteq> (0::real)" by simp
  then show ?thesis
    by (simp add: refine_def Let_def e2_value WGS84_a_def)
qed

text \<open>A point of the polar axis: the quotient \<open>p / cos lat\<close> is \<open>0 / 0\<close>.\<close>

lemma ecef_pole:
  assumes "0 < z"
  shows "ecefToGeodetic (Fin 0) (Fin 0) (Fin z)
           = \<lparr>latitude = NaN, longitude = Fin 0, height = NaN\<rparr>"
proof -
  have phi0: "Math_atan2 (Fin z) (Fin 0 * (Fin 1 - WGS84_e2)) = Fin (pi / 2)"
    using assms by (simp add: e2_value atan2_def)
  have loop: "for_loop 0 (Fin 0) (Fin z) (Fin (pi / 2)) = NaN"
    by (simp add: refine_pole refine_NaN)
  have p: "Math_sqrt (Fin 0 * Fin 0 + Fin 0 * Fin 0) = Fin 0" by simp
  have lam: "Math_atan2 (Fin 0) (Fin 0) = Fin 0" by (simp add: atan2_def)
  show ?thesis
    unfolding ecefToGeodetic_def Let_def p phi0 loop lam by simp
qed

lemma ecef_7000:
  "ecefToGeodetic (Fin 7000) (Fin 0) (Fin 0)
     = \<lparr>latitude = Fin 0, longitude = Fin 0, height = Fin 621.863\<rparr>"
  using ecef_equator [of 7000] by simp

lemma ecef_6400:
  "ecefToGeodetic (Fin 6400) (Fin 0) (Fin 0)
     = \<lparr>latitude = Fin 0, longitude = Fin 0, height = Fin 21.863\<rparr>"
  using ecef_equator [of 6400] by simp

lemma ecef_west:
  "ecefToGeodetic (Fin (- 7000)) (Fin 0) (Fin 0)
     = \<lparr>latitude = Fin 0, longitude = Fin pi, height = Fin 621.863\<rparr>"
  using ecef_equator [of "- 7000"] by simp

lemma ecef_north:
  "ecefToGeodetic (Fin 0) (Fin 0) (Fin 7000)
     = \<lparr>latitude = NaN, longitude = Fin 0, height = NaN\<rparr>"
  using ecef_pole [of 7000] by simp



section \<open>The visibility classifier\<close>

lemma sin_half_sq: "sin (t / 2) * sin (t / 2) = (1 - cos t) / (2::real)"
proof -
  have "cos (2 * (t / 2)) = 1 - 2 * (sin (t / 2))\<^sup>2" by (rule cos_double_sin)
  then show ?thesis by (simp add: power2_eq_square)
qed

text \<open>The haversine of any two points is between 0 and 1, so both square roots exist.\<close>

lemma hav_range:
  fixes p1 p2 l1 l2 :: real
  defines "h \<equiv> sin ((p2 - p1) / 2) * sin ((p2 - p1) / 2)
               + cos p1 * cos p2 * sin ((l2 - l1) / 2) * sin ((l2 - l1) / 2)"
  shows "0 \<le> h \<and> h \<le> 1"
proof -
  define s where "s = sin ((l2 - l1) / 2) * sin ((l2 - l1) / 2)"
  define cd where "cd = cos (p2 - p1)"
  define cs where "cs = cos (p1 + p2)"
  have s0: "0 \<le> s" by (simp add: s_def)
  have s1: "s \<le> 1"
    using sin_cos_squared_add3 [of "(l2 - l1) / 2"] zero_le_square [of "cos ((l2 - l1) / 2)"]
    unfolding s_def by linarith
  have cdb: "- 1 \<le> cd" "cd \<le> 1" by (simp_all add: cd_def)
  have csb: "- 1 \<le> cs" "cs \<le> 1" by (simp_all add: cs_def)
  have sq: "sin ((p2 - p1) / 2) * sin ((p2 - p1) / 2) = (1 - cd) / 2"
    unfolding cd_def by (rule sin_half_sq)
  have cc: "cos p1 * cos p2 = (cd + cs) / 2"
    using cos_times_cos [of p1 p2] by (simp add: cd_def cs_def cos_diff cos_add)
  have "h = sin ((p2 - p1) / 2) * sin ((p2 - p1) / 2) + (cos p1 * cos p2) * s"
    unfolding h_def s_def by (simp add: mult.assoc)
  also have "\<dots> = (1 - cd) / 2 + ((cd + cs) / 2) * s"
    unfolding sq cc ..
  also have "\<dots> = (1 - (1 - s) * cd + s * cs) / 2"
    by (simp add: algebra_simps add_divide_distrib diff_divide_distrib)
  finally have h: "h = (1 - (1 - s) * cd + s * cs) / 2" .
  have a1: "(1 - s) * cd \<le> (1 - s) * 1" using s1 cdb by (intro mult_left_mono) auto
  have a2: "(1 - s) * (- 1) \<le> (1 - s) * cd" using s1 cdb by (intro mult_left_mono) auto
  have b1: "s * cs \<le> s * 1" using s0 csb by (intro mult_left_mono) auto
  have b2: "s * (- 1) \<le> s * cs" using s0 csb by (intro mult_left_mono) auto
  from a1 a2 b1 b2 show ?thesis unfolding h by simp
qed

text \<open>The two-argument arctangent the code uses is the arcsine of the formula.\<close>

lemma atan2_arcsin:
  assumes "0 \<le> a" "a \<le> 1"
  shows "atan2 (sqrt a) (sqrt (1 - a)) = arcsin (sqrt a)"
proof (cases "a = 1")
  case True
  then show ?thesis by (simp add: atan2_def)
next
  case False
  with assms have lt: "a < 1" by simp
  then have pos: "0 < sqrt (1 - a)" by simp
  have x1: "sqrt a < 1" using lt by simp
  have x0: "- 1 < sqrt a" using assms by (smt (verit) real_sqrt_ge_zero)
  have "arcsin (sqrt a) = arctan (sqrt a / sqrt (1 - (sqrt a)\<^sup>2))"
    by (rule arcsin_arctan [OF x0 x1])
  also have "(sqrt a)\<^sup>2 = a" using assms by simp
  finally show ?thesis using pos by (simp add: atan2_def)
qed

lemma visible_finite:
  "isSatelliteVisible \<lparr>lat = Fin la, lon = Fin lo, alt = Fin al\<rparr> (Fin ola) (Fin olo) oalt
     = (\<not> al < 200 \<and> haversine_km ola olo la lo < 2000)"
proof -
  define h where "h = sin ((la * pi / 180 - ola * pi / 180) / 2)
                        * sin ((la * pi / 180 - ola * pi / 180) / 2)
     + cos (ola * pi / 180) * cos (la * pi / 180) * sin ((lo * pi / 180 - olo * pi / 180) / 2)
       * sin ((lo * pi / 180 - olo * pi / 180) / 2)"
  have r: "0 \<le> h \<and> h \<le> 1" unfolding h_def by (rule hav_range)
  have hk: "haversine_km ola olo la lo = 2 * 6371 * arcsin (sqrt h)"
    by (simp add: haversine_km_def h_def Let_def power2_eq_square mult.assoc)
  have "isSatelliteVisible \<lparr>lat = Fin la, lon = Fin lo, alt = Fin al\<rparr> (Fin ola) (Fin olo) oalt
      = (\<not> al < 200 \<and>
         js_lt (Fin 6371 * (Fin 2 * Math_atan2 (Math_sqrt (Fin h)) (Math_sqrt (Fin 1 - Fin h))))
           (Fin 2000))"
    by (simp add: isSatelliteVisible_def Let_def Math_PI_def h_def)
  also have "\<dots> = (\<not> al < 200 \<and> 6371 * (2 * atan2 (sqrt h) (sqrt (1 - h))) < 2000)"
    using r by simp
  also have "\<dots> = (\<not> al < 200 \<and> haversine_km ola olo la lo < 2000)"
    using r by (simp add: hk atan2_arcsin)
  finally show ?thesis .
qed

lemma visible_low: "js_lt (alt pos) (Fin 200) \<Longrightarrow> \<not> isSatelliteVisible pos olat olon oalt"
  by (simp add: isSatelliteVisible_def)

lemma haversine_same: "haversine_km a b a b = 0"
  by (simp add: haversine_km_def)

text \<open>
  C7: the classifier returns false whenever the altitude is strictly below 200 km,
  whatever the observer; for an altitude that is not below 200 km it returns true exactly
  when the haversine distance, on a sphere of radius 6371 km, between the observer and
  the point below the object is strictly less than 2000 km. An object at exactly 200 km
  straight above the observer is visible, and one at 199.999 km is not, wherever it is.
\<close>

theorem isSatelliteVisible_rule:
  "(js_lt (alt pos) (Fin 200) \<longrightarrow> \<not> isSatelliteVisible pos olat olon oalt)
   \<and> (\<not> al < 200 \<longrightarrow>
        isSatelliteVisible \<lparr>lat = Fin la, lon = Fin lo, alt = Fin al\<rparr> (Fin ola) (Fin olo) oalt
          = (haversine_km ola olo la lo < 2000))
   \<and> isSatelliteVisible \<lparr>lat = Fin ola, lon = Fin olo, alt = Fin 200\<rparr> (Fin ola) (Fin olo) oalt
   \<and> \<not> isSatelliteVisible \<lparr>lat = plat, lon = plon, alt = Fin 199.999\<rparr> olat olon oalt"
proof (intro conjI impI)
  assume "js_lt (alt pos) (Fin 200)"
  then show "\<not> isSatelliteVisible pos olat olon oalt" by (rule visible_low)
next
  assume "\<not> al < 200"
  then show "isSatelliteVisible \<lparr>lat = Fin la, lon = Fin lo, alt = Fin al\<rparr> (Fin ola) (Fin olo) oalt
          = (haversine_km ola olo la lo < 2000)"
    by (simp add: visible_finite)
next
  show "isSatelliteVisible \<lparr>lat = Fin ola, lon = Fin olo, alt = Fin 200\<rparr> (Fin ola) (Fin olo) oalt"
    by (simp add: visible_finite haversine_same)
next
  show "\<not> isSatelliteVisible \<lparr>lat = plat, lon = plon, alt = Fin 199.999\<rparr> olat olon oalt"
    by (rule visible_low) simp
qed

theorem isSatelliteVisible_rule_witness:
  "js_lt (alt \<lparr>lat = Fin 10, lon = Fin 20, alt = Fin 150\<rparr>) (Fin 200)
   \<and> \<not> isSatelliteVisible \<lparr>lat = Fin 10, lon = Fin 20, alt = Fin 150\<rparr> (Fin 10) (Fin 20) (Fin 0)
   \<and> \<not> (400::real) < 200
   \<and> isSatelliteVisible \<lparr>lat = Fin 10, lon = Fin 20, alt = Fin 400\<rparr> (Fin 10) (Fin 20) (Fin 0)
   \<and> haversine_km 10 20 10 20 < 2000"
  using isSatelliteVisible_rule [of "\<lparr>lat = Fin 10, lon = Fin 20, alt = Fin 150\<rparr>"
      "Fin 10" "Fin 20" "Fin 0" 400 10 20 10 20 "Fin 10" "Fin 20"]
  by (simp add: haversine_same)

section \<open>The batch loop\<close>

lemma emit_lon:
  assumes "isFinite (longitude g)"
  shows "\<exists>r. lon (position (emit sat g ve)) = Fin r \<and> - 180 \<le> r \<and> r < 180"
proof -
  from assms obtain l where l: "longitude g = Fin l" by (cases "longitude g") auto
  have "lon (position (emit sat g ve)) = normalizeLon (Fin (l * 180 / pi))"
    by (simp add: emit_def Let_def l Math_PI_def)
  then show ?thesis using normalizeLon_range by simp
qed

lemma emit_visible: "visible (emit sat g ve)"
  by (simp add: emit_def Let_def)

text \<open>What one iteration does to the list of samples.\<close>

lemma body_positions:
  "positions (body L date v sat) = positions v \<or>
   (\<exists>g ve. isFinite (latitude g) \<and> isFinite (longitude g) \<and> isFinite (height g) \<and>
      positions (body L date v sat) = positions v @ [emit sat g ve])"
  by (auto simp: body_def Let_def split: prod.splits option.splits PositionAndVelocity.splits)

lemma for_of_positions:
  assumes "\<And>sat g ve. isFinite (latitude g) \<Longrightarrow> isFinite (longitude g) \<Longrightarrow> isFinite (height g)
             \<Longrightarrow> P (emit sat g ve)"
  shows "list_all P (positions v) \<Longrightarrow> list_all P (positions (for_of L date v sats))"
proof (induction sats arbitrary: v)
  case Nil
  then show ?case by simp
next
  case (Cons sat rest)
  have "list_all P (positions (body L date v sat))"
    using body_positions [of L date v sat] Cons.prems assms by auto
  then show ?case using Cons.IH by simp
qed

lemma returned_all:
  assumes "\<And>sat g ve. isFinite (latitude g) \<Longrightarrow> isFinite (longitude g) \<Longrightarrow> isFinite (height g)
             \<Longrightarrow> P (emit sat g ve)"
  shows "list_all P (returned (propagateSatellites L sats ts obsLat obsLon obsAlt w))"
proof -
  have "list_all P (positions (for_of L (new_Date ts)
          \<lparr>positions = [], parsedCount = 0, propagatedCount = 0, geodeticCount = 0,
           debugLogged = 0, worker = w\<rparr> sats))"
    by (rule for_of_positions) (simp_all add: assms)
  then show ?thesis by (simp add: propagateSatellites_def Let_def)
qed

lemmas demo_defs = demo_js_def demo_twoline2satrec_def demo_propagate_def entry_def started_def
  noon_def parseTLE_def cacheKey_def body_def propagateSatellites_def Let_def

lemma run_west:
  "returned (propagateSatellites demo_js [west] noon (Fin 0) (Fin 0) (Fin 0) started)
     = [\<lparr>name = ''20580'', noradId = ''20580'', category = ''demo'',
          position = \<lparr>lat = Fin 0, lon = Fin (- 180), alt = Fin 621.863\<rparr>,
          velocity = \<lparr>vx = Fin 0, vy = Fin 7, vz = Fin 0\<rparr>, visible = True\<rparr>]"
  by (simp add: demo_defs west_def ecef_west emit_def Math_PI_def normalize_180)

lemma run_low:
  "returned (propagateSatellites demo_js [low] noon (Fin 0) (Fin 0) (Fin 0) started)
     = [\<lparr>name = ''55555'', noradId = ''55555'', category = ''demo'',
          position = \<lparr>lat = Fin 0, lon = Fin 0, alt = Fin 21.863\<rparr>,
          velocity = \<lparr>vx = Fin 0, vy = Fin 7, vz = Fin 0\<rparr>, visible = True\<rparr>]"
  by (simp add: demo_defs low_def ecef_6400 emit_def Math_PI_def normalize_0)

text \<open>
  C4: every sample of every batch has a finite longitude in degrees that lies in the
  half-open interval from -180 to 180, whatever the library returned for the entry.
\<close>

theorem longitude_normalised:
  "\<forall>s \<in> set (returned (propagateSatellites L sats ts obsLat obsLon obsAlt w)).
     \<exists>r. lon (position s) = Fin r \<and> - 180 \<le> r \<and> r < 180"
  using returned_all [of "\<lambda>s. \<exists>r. lon (position s) = Fin r \<and> - 180 \<le> r \<and> r < 180"]
  by (simp add: emit_lon list_all_iff)

text \<open>An object on the antimeridian: the raw longitude of 180 degrees becomes -180.\<close>

theorem longitude_normalised_witness:
  "length (returned (propagateSatellites demo_js [west] noon (Fin 0) (Fin 0) (Fin 0) started)) = 1
   \<and> lon (position (hd (returned
        (propagateSatellites demo_js [west] noon (Fin 0) (Fin 0) (Fin 0) started)))) = Fin (- 180)
   \<and> (\<exists>r. lon (position (hd (returned
        (propagateSatellites demo_js [west] noon (Fin 0) (Fin 0) (Fin 0) started)))) = Fin r
          \<and> - 180 \<le> r \<and> r < 180)"
  using longitude_normalised [of demo_js "[west]" noon "Fin 0" "Fin 0" "Fin 0" started]
  by (simp add: run_west)

text \<open>
  C6: every sample of every batch is marked visible, for every catalog, instant and
  observer, and the batch does not depend on the observer at all: the result of the
  visibility rule has no part in it.
\<close>

theorem always_visible:
  "(\<forall>s \<in> set (returned (propagateSatellites L sats ts obsLat obsLon obsAlt w)). visible s)
   \<and> propagateSatellites L sats ts obsLat obsLon obsAlt w
       = propagateSatellites L sats ts obsLat' obsLon' obsAlt' w"
  using returned_all [of visible]
  by (simp add: emit_visible list_all_iff propagateSatellites_def)

text \<open>An object at 21.863 km: the classifier rejects it, the batch marks it visible.\<close>

theorem always_visible_witness:
  "length (returned (propagateSatellites demo_js [low] noon (Fin 0) (Fin 0) (Fin 0) started)) = 1
   \<and> visible (hd (returned (propagateSatellites demo_js [low] noon (Fin 0) (Fin 0) (Fin 0) started)))
   \<and> \<not> isSatelliteVisible
         (position (hd (returned
            (propagateSatellites demo_js [low] noon (Fin 0) (Fin 0) (Fin 0) started))))
         (Fin 0) (Fin 0) (Fin 0)"
  using always_visible [of demo_js "[low]" noon "Fin 0" "Fin 0" "Fin 0" started]
  by (simp add: run_low visible_low)

section \<open>Counting the entries of a batch\<close>

lemma body_worker: "worker (body L date v sat) = snd (parseTLE L sat (worker v))"
  by (auto simp: body_def Let_def split: prod.splits option.splits PositionAndVelocity.splits)

text \<open>One iteration moves the counters as the fate of its entry says.\<close>

lemma body_counts:
  "length (positions (body L date v sat))
     = length (positions v) + (if fate_of L date (worker v) sat = Survives then 1 else 0) \<and>
   geodeticCount (body L date v sat)
     = geodeticCount v + (if fate_of L date (worker v) sat = Survives then 1 else 0) \<and>
   propagatedCount (body L date v sat)
     = propagatedCount v
       + (if fate_of L date (worker v) sat \<in> {Survives, TransformFailure} then 1 else 0) \<and>
   parsedCount (body L date v sat)
     = parsedCount v + (if fate_of L date (worker v) sat = ParseFailure then 0 else 1)"
  by (auto simp: body_def fate_of_def Let_def
           split: prod.splits option.splits PositionAndVelocity.splits)

lemma count_fates:
  "count_list fs ParseFailure + count_list fs PropagationFailure + count_list fs TransformFailure
     + count_list fs Survives = length fs"
proof (induction fs)
  case Nil
  then show ?case by simp
next
  case (Cons f fs)
  then show ?case by (cases f) simp_all
qed

lemma length_fates: "length (fates L date w sats) = length sats"
  by (induction sats arbitrary: w) simp_all

lemma for_of_counts:
  "length (positions (for_of L date v sats))
     = length (positions v) + count_list (fates L date (worker v) sats) Survives \<and>
   geodeticCount (for_of L date v sats)
     = geodeticCount v + count_list (fates L date (worker v) sats) Survives \<and>
   propagatedCount (for_of L date v sats)
     = propagatedCount v + count_list (fates L date (worker v) sats) Survives
       + count_list (fates L date (worker v) sats) TransformFailure \<and>
   parsedCount (for_of L date v sats)
     = parsedCount v + count_list (fates L date (worker v) sats) Survives
       + count_list (fates L date (worker v) sats) TransformFailure
       + count_list (fates L date (worker v) sats) PropagationFailure"
proof (induction sats arbitrary: v)
  case Nil
  then show ?case by simp
next
  case (Cons sat rest)
  note step = body_counts [of L date v sat]
  note ih = Cons.IH [of "body L date v sat"]
  show ?case
    using step ih
    by (cases "fate_of L date (worker v) sat") (simp_all add: body_worker)
qed

lemma run_garbled:
  "propagateSatellites demo_js [garbled] noon (Fin 0) (Fin 0) (Fin 0) started
     = \<lparr>returned = [], debug = \<lparr>parsed = 0, propagated = 0, geodetic = 0, positions_length = 0\<rparr>,
        after = \<lparr>satelliteCache = Map.empty, parseLog = [(''garbled'', ''2 leo'')]\<rparr>\<rparr>"
  by (simp add: demo_defs garbled_def)

lemma fates_garbled: "fates demo_js (new_Date noon) started [garbled] = [ParseFailure]"
  by (simp add: demo_defs fate_of_def garbled_def)

lemma run_four:
  "returned (propagateSatellites demo_js [garbled, decayed, pole, leo] noon
       (Fin 0) (Fin 0) (Fin 0) started)
     = [\<lparr>name = ''25544'', noradId = ''25544'', category = ''demo'',
          position = \<lparr>lat = Fin 0, lon = Fin 0, alt = Fin 621.863\<rparr>,
          velocity = \<lparr>vx = Fin 0, vy = Fin 7, vz = Fin 0\<rparr>, visible = True\<rparr>]"
  by (simp add: demo_defs garbled_def decayed_def pole_def leo_def ecef_7000 ecef_north
      emit_def Math_PI_def normalize_0)

lemma fates_four:
  "fates demo_js (new_Date noon) started [garbled, decayed, pole, leo]
     = [ParseFailure, PropagationFailure, TransformFailure, Survives]"
  by (simp add: demo_defs fate_of_def garbled_def decayed_def pole_def leo_def
      ecef_7000 ecef_north)

text \<open>
  C1, as the specification states it, fails: the counters of the batch are not the
  numbers of failures. For a catalog of one entry whose text does not parse, one entry
  fails parsing, and the counter \<open>parsed\<close> is 0.
\<close>

theorem failure_counters_counterexample:
  "parsed (debug (propagateSatellites demo_js [garbled] noon (Fin 0) (Fin 0) (Fin 0) started))
     \<noteq> count_list (fates demo_js (new_Date noon) started [garbled]) ParseFailure"
  unfolding run_garbled fates_garbled by simp

text \<open>
  C1, amended: for a catalog of N entries of which p fail parsing, g fail propagation
  and t fail the geodetic transform, the batch returned has exactly N - p - g - t
  samples, and the counters of the batch count the entries that passed each stage:
  \<open>parsed\<close> is N - p, \<open>propagated\<close> is N - p - g, \<open>geodetic\<close> is N - p - g - t, which is
  also the number \<open>positions\<close> that is printed.
\<close>

theorem conservation_success_counters:
  "length (returned (propagateSatellites L sats ts obsLat obsLon obsAlt w))
     = length sats - count_list (fates L (new_Date ts) w sats) ParseFailure
         - count_list (fates L (new_Date ts) w sats) PropagationFailure
         - count_list (fates L (new_Date ts) w sats) TransformFailure
   \<and> count_list (fates L (new_Date ts) w sats) ParseFailure
       + count_list (fates L (new_Date ts) w sats) PropagationFailure
       + count_list (fates L (new_Date ts) w sats) TransformFailure \<le> length sats
   \<and> parsed (debug (propagateSatellites L sats ts obsLat obsLon obsAlt w))
       = length sats - count_list (fates L (new_Date ts) w sats) ParseFailure
   \<and> propagated (debug (propagateSatellites L sats ts obsLat obsLon obsAlt w))
       = length sats - count_list (fates L (new_Date ts) w sats) ParseFailure
           - count_list (fates L (new_Date ts) w sats) PropagationFailure
   \<and> geodetic (debug (propagateSatellites L sats ts obsLat obsLon obsAlt w))
       = length sats - count_list (fates L (new_Date ts) w sats) ParseFailure
           - count_list (fates L (new_Date ts) w sats) PropagationFailure
           - count_list (fates L (new_Date ts) w sats) TransformFailure
   \<and> positions_length (debug (propagateSatellites L sats ts obsLat obsLon obsAlt w))
       = length (returned (propagateSatellites L sats ts obsLat obsLon obsAlt w))"
proof -
  define fs where "fs = fates L (new_Date ts) w sats"
  define v0 :: "'a locals" where
    "v0 = \<lparr>positions = [], parsedCount = 0, propagatedCount = 0, geodeticCount = 0,
           debugLogged = 0, worker = w\<rparr>"
  have total: "count_list fs ParseFailure + count_list fs PropagationFailure
                 + count_list fs TransformFailure + count_list fs Survives = length sats"
    using count_fates [of fs] by (simp add: fs_def length_fates)
  have run: "propagateSatellites L sats ts obsLat obsLon obsAlt w
      = \<lparr>returned = positions (for_of L (new_Date ts) v0 sats),
         debug = \<lparr>parsed = parsedCount (for_of L (new_Date ts) v0 sats),
                  propagated = propagatedCount (for_of L (new_Date ts) v0 sats),
                  geodetic = geodeticCount (for_of L (new_Date ts) v0 sats),
                  positions_length = length (positions (for_of L (new_Date ts) v0 sats))\<rparr>,
         after = worker (for_of L (new_Date ts) v0 sats)\<rparr>"
    by (simp add: propagateSatellites_def Let_def v0_def)
  have counts:
    "length (positions (for_of L (new_Date ts) v0 sats)) = count_list fs Survives"
    "geodeticCount (for_of L (new_Date ts) v0 sats) = count_list fs Survives"
    "propagatedCount (for_of L (new_Date ts) v0 sats)
       = count_list fs Survives + count_list fs TransformFailure"
    "parsedCount (for_of L (new_Date ts) v0 sats)
       = count_list fs Survives + count_list fs TransformFailure
         + count_list fs PropagationFailure"
    using for_of_counts [of L "new_Date ts" v0 sats] by (simp_all add: v0_def fs_def)
  show ?thesis
    unfolding fs_def [symmetric] run using total counts by simp arith
qed

theorem conservation_success_counters_witness:
  "length (returned (propagateSatellites demo_js [garbled, decayed, pole, leo] noon
       (Fin 0) (Fin 0) (Fin 0) started)) = 4 - 1 - 1 - 1
   \<and> fates demo_js (new_Date noon) started [garbled, decayed, pole, leo]
       = [ParseFailure, PropagationFailure, TransformFailure, Survives]
   \<and> debug (propagateSatellites demo_js [garbled, decayed, pole, leo] noon
       (Fin 0) (Fin 0) (Fin 0) started)
       = \<lparr>parsed = 3, propagated = 2, geodetic = 1, positions_length = 1\<rparr>"
proof -
  have "debug (propagateSatellites demo_js [garbled, decayed, pole, leo] noon
       (Fin 0) (Fin 0) (Fin 0) started)
       = \<lparr>parsed = 3, propagated = 2, geodetic = 1, positions_length = 1\<rparr>"
    using conservation_success_counters
      [of demo_js "[garbled, decayed, pole, leo]" noon "Fin 0" "Fin 0" "Fin 0" started]
    unfolding fates_four run_four
    by (cases "debug (propagateSatellites demo_js [garbled, decayed, pole, leo] noon
       (Fin 0) (Fin 0) (Fin 0) started)") simp
  then show ?thesis unfolding fates_four run_four by simp
qed

section \<open>The message handler\<close>

lemma or_else_None [simp]: "or_else None d = d"
  by (simp add: or_else_def)

lemma or_else_zero [simp]: "or_else (Some (Fin 0)) d = d"
  by (simp add: or_else_def)


lemma run_nil:
  "propagateSatellites L [] ts obsLat obsLon obsAlt w
     = \<lparr>returned = [], debug = \<lparr>parsed = 0, propagated = 0, geodetic = 0, positions_length = 0\<rparr>,
        after = w\<rparr>"
  by (simp add: propagateSatellites_def Let_def)


text \<open>
  C2, as the specification states it, fails: a \<open>PROPAGATE\<close> message whose catalog is
  missing is answered with an \<open>Error\<close> message, not with an empty \<open>Positions\<close> reply.
\<close>

theorem missing_catalog_counterexample:
  "onmessage demo_js noon (propagate_msg no_data) started
     = (ERROR ''No satellite data provided'', started)
   \<and> fst (onmessage demo_js noon (propagate_msg no_data) started) \<noteq> POSITIONS [] noon 0"
  by (simp add: onmessage_def propagate_msg_def no_data_def)

text \<open>
  C2, amended: the engine answers a message with \<open>Error\<close> exactly when its type is
  unknown or it is a \<open>PROPAGATE\<close> message without data or without a catalog, and a
  missing catalog gives the error \<open>No satellite data provided\<close>; a \<open>PROPAGATE\<close> message
  whose catalog list is empty is not an error and is answered with a \<open>Positions\<close> reply
  of zero samples and count 0.
\<close>

theorem error_only_without_catalog:
  "((\<exists>e. fst (onmessage L now m w) = ERROR e) \<longleftrightarrow>
      ((\<exists>t. msg_type m = Other t) \<or>
       (msg_type m = PROPAGATE \<and>
          (msg_data m = None \<or> (\<exists>d. msg_data m = Some d \<and> satellites d = None)))))
   \<and> (msg_type m = PROPAGATE \<and> (msg_data m = None \<or> (\<exists>d. msg_data m = Some d \<and> satellites d = None))
        \<longrightarrow> onmessage L now m w = (ERROR ''No satellite data provided'', w))
   \<and> (msg_type m = PROPAGATE \<and> msg_data m = Some d0 \<and> satellites d0 = Some []
        \<longrightarrow> onmessage L now m w = (POSITIONS [] (or_else (timestamp d0) now) 0, w))"
  by (cases "msg_type m"; cases "msg_data m")
     (auto simp: onmessage_def Let_def run_nil split: option.splits)

theorem error_only_without_catalog_witness:
  "msg_type (propagate_msg (no_data\<lparr>satellites := Some []\<rparr>)) = PROPAGATE
   \<and> msg_data (propagate_msg (no_data\<lparr>satellites := Some []\<rparr>)) = Some (no_data\<lparr>satellites := Some []\<rparr>)
   \<and> satellites (no_data\<lparr>satellites := Some []\<rparr>) = Some []
   \<and> onmessage demo_js noon (propagate_msg (no_data\<lparr>satellites := Some []\<rparr>)) started
       = (POSITIONS [] noon 0, started)"
  using error_only_without_catalog
    [of demo_js noon "propagate_msg (no_data\<lparr>satellites := Some []\<rparr>)" started
        "no_data\<lparr>satellites := Some []\<rparr>"]
  by (simp add: propagate_msg_def no_data_def)



section \<open>The record cache\<close>

lemma parseTLE_hit:
  "satelliteCache w (cacheKey e) = Some r \<Longrightarrow> parseTLE L e w = (Some r, w)"
  by (simp add: parseTLE_def)

lemma parseTLE_miss:
  assumes "satelliteCache w (cacheKey e) = None"
  shows "fst (parseTLE L e w) = twoline2satrec L (line1 (tle e)) (line2 (tle e))"
    and "parseLog (snd (parseTLE L e w)) = parseLog w @ [(line1 (tle e), line2 (tle e))]"
    and "satelliteCache (snd (parseTLE L e w)) (cacheKey e)
           = twoline2satrec L (line1 (tle e)) (line2 (tle e))"
  using assms by (simp_all add: parseTLE_def Let_def split: option.splits)

lemma parseTLE_cached:
  "parseTLE L e w = (Some r, w1) \<Longrightarrow> satelliteCache w1 (cacheKey e) = Some r"
  by (auto simp: parseTLE_def Let_def split: option.splits)

text \<open>No call removes or replaces an entry of the cache.\<close>

lemma parseTLE_keeps:
  "satelliteCache w k = Some r \<Longrightarrow> satelliteCache (snd (parseTLE L e w)) k = Some r"
  by (auto simp: parseTLE_def Let_def split: option.splits)

lemma parse_leo:
  "parseTLE demo_js leo started
     = (Some (demo_record ''leo''),
        \<lparr>satelliteCache = [''25544-1 25544U-2 leo'' \<mapsto> demo_record ''leo''],
         parseLog = [(''1 25544U'', ''2 leo'')]\<rparr>)"
  by (simp add: demo_defs leo_def demo_record_def)

lemma parse_leo_updated:
  "parseTLE demo_js leo_updated
       \<lparr>satelliteCache = [''25544-1 25544U-2 leo'' \<mapsto> demo_record ''leo''],
        parseLog = [(''1 25544U'', ''2 leo'')]\<rparr>
     = (Some (demo_record ''west''),
        \<lparr>satelliteCache = [''25544-1 25544U-2 leo'' \<mapsto> demo_record ''leo'',
                            ''25544-1 25544U-2 west'' \<mapsto> demo_record ''west''],
         parseLog = [(''1 25544U'', ''2 leo''), (''1 25544U'', ''2 west'')]\<rparr>)"
  by (simp add: demo_defs leo_updated_def demo_record_def)

text \<open>
  C3, as the specification states it, fails: the prior record is not superseded. After
  an entry is parsed and then parsed again under the same identity with a changed
  second line, the record of the old text is still in the cache under its key.
\<close>

theorem prior_record_kept_counterexample:
  "noradId leo_updated = noradId leo
   \<and> tle leo_updated \<noteq> tle leo
   \<and> satelliteCache (snd (parseTLE demo_js leo_updated (snd (parseTLE demo_js leo started))))
         (cacheKey leo) = Some (demo_record ''leo'')"
  unfolding parse_leo snd_conv parse_leo_updated
  by (simp add: leo_def leo_updated_def entry_def cacheKey_def)

text \<open>
  C3, amended: when a call of the parser returned a record, a second call with the
  identical (identity, line1, line2) returns the same record from the cache and does
  not call the library's parser (the state, with the list of parser calls, is
  unchanged). A call with an entry whose cache key is different leaves that record in
  the cache under its key, unchanged: nothing is evicted or merged. If the key of the
  new entry is not in the cache, its text is parsed, once, and what the parser returns
  is the result and is cached under the new key.
\<close>

theorem parseTLE_cache:
  assumes "parseTLE L e w = (Some r, w1)"
  shows "parseTLE L e w1 = (Some r, w1)
     \<and> (cacheKey e' \<noteq> cacheKey e \<longrightarrow>
          satelliteCache (snd (parseTLE L e' w1)) (cacheKey e) = Some r)
     \<and> (satelliteCache w1 (cacheKey e') = None \<longrightarrow>
          fst (parseTLE L e' w1) = twoline2satrec L (line1 (tle e')) (line2 (tle e'))
          \<and> satelliteCache (snd (parseTLE L e' w1)) (cacheKey e')
              = twoline2satrec L (line1 (tle e')) (line2 (tle e'))
          \<and> satelliteCache (snd (parseTLE L e' w1)) (cacheKey e) = Some r
          \<and> parseLog (snd (parseTLE L e' w1))
              = parseLog w1 @ [(line1 (tle e'), line2 (tle e'))])"
proof -
  have c: "satelliteCache w1 (cacheKey e) = Some r"
    using assms by (rule parseTLE_cached)
  then have again: "parseTLE L e w1 = (Some r, w1)" by (rule parseTLE_hit)
  have kept: "satelliteCache (snd (parseTLE L e' w1)) (cacheKey e) = Some r"
    using c by (rule parseTLE_keeps)
  show ?thesis
    using again kept parseTLE_miss [of w1 e' L] by simp
qed

theorem parseTLE_cache_witness:
  "parseTLE demo_js leo started
     = (Some (demo_record ''leo''),
        \<lparr>satelliteCache = [''25544-1 25544U-2 leo'' \<mapsto> demo_record ''leo''],
         parseLog = [(''1 25544U'', ''2 leo'')]\<rparr>)
   \<and> parseTLE demo_js leo
        \<lparr>satelliteCache = [''25544-1 25544U-2 leo'' \<mapsto> demo_record ''leo''],
         parseLog = [(''1 25544U'', ''2 leo'')]\<rparr>
     = (Some (demo_record ''leo''),
        \<lparr>satelliteCache = [''25544-1 25544U-2 leo'' \<mapsto> demo_record ''leo''],
         parseLog = [(''1 25544U'', ''2 leo'')]\<rparr>)
   \<and> cacheKey leo_updated \<noteq> cacheKey leo
   \<and> fst (parseTLE demo_js leo_updated
        \<lparr>satelliteCache = [''25544-1 25544U-2 leo'' \<mapsto> demo_record ''leo''],
         parseLog = [(''1 25544U'', ''2 leo'')]\<rparr>) = Some (demo_record ''west'')
   \<and> satelliteCache (snd (parseTLE demo_js leo_updated
        \<lparr>satelliteCache = [''25544-1 25544U-2 leo'' \<mapsto> demo_record ''leo''],
         parseLog = [(''1 25544U'', ''2 leo'')]\<rparr>)) (cacheKey leo) = Some (demo_record ''leo'')"
proof -
  note inst = parseTLE_cache [OF parse_leo, of leo_updated]
  have k: "cacheKey leo_updated \<noteq> cacheKey leo"
    by (simp add: leo_def leo_updated_def entry_def cacheKey_def)
  show ?thesis
    using inst k parse_leo by (simp add: parse_leo_updated)
qed

section \<open>Velocity and repeated batches\<close>

text \<open>
  C8 is not what the code does for the velocity. The stand-in library returns for the
  entry \<open>nanvel\<close> a finite position and a velocity whose first component is \<open>NaN\<close>;
  the entry is not skipped, and the sample in the batch carries that \<open>NaN\<close>.
\<close>

theorem nonfinite_velocity_emitted:
  "propagate demo_js (demo_record ''nanvel'') (new_Date noon)
     = PV (Some \<lparr>vx = Fin 7000, vy = Fin 0, vz = Fin 0\<rparr>)
          (Some \<lparr>vx = NaN, vy = Fin 7, vz = Fin 0\<rparr>)
   \<and> returned (propagateSatellites demo_js [nanvel] noon (Fin 0) (Fin 0) (Fin 0) started)
     = [\<lparr>name = ''33333'', noradId = ''33333'', category = ''demo'',
          position = \<lparr>lat = Fin 0, lon = Fin 0, alt = Fin 621.863\<rparr>,
          velocity = \<lparr>vx = NaN, vy = Fin 7, vz = Fin 0\<rparr>, visible = True\<rparr>]
   \<and> debug (propagateSatellites demo_js [nanvel] noon (Fin 0) (Fin 0) (Fin 0) started)
     = \<lparr>parsed = 1, propagated = 1, geodetic = 1, positions_length = 1\<rparr>"
  by (simp add: demo_defs nanvel_def demo_record_def ecef_7000 emit_def Math_PI_def normalize_0)

theorem nonfinite_velocity_emitted_witness:
  "\<not> isFinite (vx (velocity (hd (returned
       (propagateSatellites demo_js [nanvel] noon (Fin 0) (Fin 0) (Fin 0) started)))))"
  using nonfinite_velocity_emitted by simp

text \<open>
  A second batch over the same catalog, started in the state the first one left, returns
  the same samples when the catalog is unambiguous: the two loops run in step, and each
  entry gets the same record in both.
\<close>

lemma parseTLE_cache_after:
  "satelliteCache (snd (parseTLE L e w)) =
     (case satelliteCache w (cacheKey e) of
        Some r \<Rightarrow> satelliteCache w
      | None \<Rightarrow>
          (case twoline2satrec L (line1 (tle e)) (line2 (tle e)) of
             Some r \<Rightarrow> (satelliteCache w)(cacheKey e \<mapsto> r)
           | None \<Rightarrow> satelliteCache w))"
  by (simp add: parseTLE_def Let_def split: option.splits)

lemma parseTLE_result:
  "fst (parseTLE L e w) =
     (case satelliteCache w (cacheKey e) of
        Some r \<Rightarrow> Some r
      | None \<Rightarrow> twoline2satrec L (line1 (tle e)) (line2 (tle e)))"
  by (simp add: parseTLE_def Let_def split: option.splits)

lemma agree_result:
  assumes "cache_agrees L S w w'" "e \<in> S"
  shows "fst (parseTLE L e w') = fst (parseTLE L e w)"
  using assms unfolding cache_agrees_def parseTLE_result
  by (cases "satelliteCache w (cacheKey e)"; cases "satelliteCache w' (cacheKey e)") auto

lemma agree_step:
  assumes "cache_agrees L S w w'" "e \<in> S"
  shows "cache_agrees L S (snd (parseTLE L e w)) (snd (parseTLE L e w'))"
  using assms unfolding cache_agrees_def parseTLE_cache_after
  by (cases "satelliteCache w (cacheKey e)"; cases "satelliteCache w' (cacheKey e)";
      cases "twoline2satrec L (line1 (tle e)) (line2 (tle e))")
     (auto split: if_splits)

lemma parseTLE_added:
  "satelliteCache (snd (parseTLE L e w)) k = Some r \<Longrightarrow>
     satelliteCache w k = Some r \<or>
     (k = cacheKey e \<and> twoline2satrec L (line1 (tle e)) (line2 (tle e)) = Some r)"
  unfolding parseTLE_cache_after by (auto split: option.splits if_splits)

lemma for_of_keeps:
  "satelliteCache (worker v) k = Some r \<Longrightarrow>
     satelliteCache (worker (for_of L date v sats)) k = Some r"
proof (induction sats arbitrary: v)
  case Nil
  then show ?case by simp
next
  case (Cons sat rest)
  have "satelliteCache (worker (body L date v sat)) k = Some r"
    unfolding body_worker using Cons.prems by (rule parseTLE_keeps)
  then show ?case using Cons.IH by simp
qed

lemma for_of_added:
  "satelliteCache (worker (for_of L date v sats)) k = Some r \<Longrightarrow>
     satelliteCache (worker v) k = Some r \<or>
     (\<exists>e \<in> set sats. cacheKey e = k \<and> twoline2satrec L (line1 (tle e)) (line2 (tle e)) = Some r)"
proof (induction sats arbitrary: v)
  case Nil
  then show ?case by simp
next
  case (Cons sat rest)
  from Cons.IH [of "body L date v sat"] Cons.prems
  have "satelliteCache (snd (parseTLE L sat (worker v))) k = Some r \<or>
     (\<exists>e \<in> set rest. cacheKey e = k \<and> twoline2satrec L (line1 (tle e)) (line2 (tle e)) = Some r)"
    by (simp add: body_worker)
  then show ?case using parseTLE_added [of L sat "worker v" k r] by auto
qed

lemma agree_initial:
  assumes "unambiguous sats"
  shows "cache_agrees L (set sats) (worker v) (worker (for_of L date v sats))"
  unfolding cache_agrees_def
proof (intro conjI allI ballI impI)
  fix k r assume "satelliteCache (worker v) k = Some r"
  then show "satelliteCache (worker (for_of L date v sats)) k = Some r" by (rule for_of_keeps)
next
  fix e r
  assume e: "e \<in> set sats"
    and c: "satelliteCache (worker (for_of L date v sats)) (cacheKey e) = Some r"
  show "satelliteCache (worker v) (cacheKey e) = Some r \<or>
          (satelliteCache (worker v) (cacheKey e) = None \<and>
           twoline2satrec L (line1 (tle e)) (line2 (tle e)) = Some r)"
  proof (cases "satelliteCache (worker v) (cacheKey e)")
    case (Some r0)
    then have "satelliteCache (worker (for_of L date v sats)) (cacheKey e) = Some r0"
      by (rule for_of_keeps)
    with c Some show ?thesis by simp
  next
    case None
    with for_of_added [OF c] obtain e2 where e2: "e2 \<in> set sats" "cacheKey e2 = cacheKey e"
        "twoline2satrec L (line1 (tle e2)) (line2 (tle e2)) = Some r"
      by auto
    with assms e have "tle e2 = tle e" unfolding unambiguous_def by blast
    with e2 None show ?thesis by simp
  qed
qed

lemma body_positions_cong:
  assumes "fst (parseTLE L sat (worker v')) = fst (parseTLE L sat (worker v))"
    and "positions v' = positions v"
  shows "positions (body L date v' sat) = positions (body L date v sat)"
  using assms
  by (cases "parseTLE L sat (worker v)"; cases "parseTLE L sat (worker v')")
     (auto simp: body_def Let_def split: option.splits PositionAndVelocity.splits)

lemma for_of_agree:
  assumes "set sats \<subseteq> S"
  shows "cache_agrees L S (worker v) (worker v') \<Longrightarrow> positions v' = positions v \<Longrightarrow>
         positions (for_of L date v' sats) = positions (for_of L date v sats)"
  using assms
proof (induction sats arbitrary: v v')
  case Nil
  then show ?case by simp
next
  case (Cons sat rest)
  from Cons.prems have sat: "sat \<in> S" and rest: "set rest \<subseteq> S" by auto
  have p: "positions (body L date v' sat) = positions (body L date v sat)"
    using agree_result [OF Cons.prems(1) sat] Cons.prems(2) by (rule body_positions_cong)
  have a: "cache_agrees L S (worker (body L date v sat)) (worker (body L date v' sat))"
    unfolding body_worker using Cons.prems(1) sat by (rule agree_step)
  show ?case using Cons.IH [OF a p rest] by simp
qed

lemma repeated_batch_same:
  assumes "unambiguous sats"
  shows "returned (propagateSatellites L sats ts obsLat obsLon obsAlt
           (after (propagateSatellites L sats ts obsLat obsLon obsAlt w)))
         = returned (propagateSatellites L sats ts obsLat obsLon obsAlt w)"
proof -
  define v0 :: "'a locals" where
    "v0 = \<lparr>positions = [], parsedCount = 0, propagatedCount = 0, geodeticCount = 0,
           debugLogged = 0, worker = w\<rparr>"
  define w1 where "w1 = worker (for_of L (new_Date ts) v0 sats)"
  have a: "cache_agrees L (set sats) (worker v0) (worker (v0\<lparr>worker := w1\<rparr>))"
    using agree_initial [OF assms, of L v0 "new_Date ts"] by (simp add: w1_def)
  have "positions (for_of L (new_Date ts) (v0\<lparr>worker := w1\<rparr>) sats)
          = positions (for_of L (new_Date ts) v0 sats)"
    by (rule for_of_agree [OF subset_refl a]) simp
  then show ?thesis
    by (simp add: propagateSatellites_def Let_def v0_def w1_def)
qed

lemma nonfinite_position_skipped:
  assumes "fst (parseTLE L sat (worker v)) = Some satrec"
    and "propagate L satrec date = PV (Some pos) vel"
    and "\<not> (isFinite (vx pos) \<and> isFinite (vy pos) \<and> isFinite (vz pos))"
  shows "positions (body L date v sat) = positions v
     \<and> propagatedCount (body L date v sat) = propagatedCount v"
  using assms
  by (cases "parseTLE L sat (worker v)")
     (auto simp: body_def Let_def split: option.splits PositionAndVelocity.splits)





end
